theory Spec2Isabelle
  imports Main "HOL-Library.Word"
begin

section \<open>Data model\<close>

text \<open>
  \<^verbatim>\<open>types.PrivateStateIdentifier\<close> is a Go string, a managed party is a Go string
  (a public key in text form) and \<^verbatim>\<open>common.Hash\<close> is a 32-byte array that this code only
  passes on and compares.
\<close>

type_synonym PrivateStateIdentifier = string

type_synonym hash = "256 word"

text \<open>
  Modelled from the spec: the declaration of \<^verbatim>\<open>mps.PrivateStateMetadata\<close> is not among
  the sources. Section 3 gives it as
  \<^verbatim>\<open>{ id: PSI, kind: {Resident, Participant}, managedParties: set<PartyKey> }\<close>; the
  source names the first two fields \<^verbatim>\<open>ID\<close> and \<^verbatim>\<open>Type\<close> and the kind
  \<^verbatim>\<open>mps.Resident\<close>.
\<close>

datatype PrivateStateType = Resident | Participant

record PrivateStateMetadata =
  ID :: PrivateStateIdentifier
  Type :: PrivateStateType
  managedParties :: "string set"

text \<open>
  The errors. The two that the source builds itself are
  \<^verbatim>\<open>fmt.Errorf("unable to find private state metadata for managed party %s", managedParty)\<close>,
  here \<open>PartyNotFound managedParty\<close>, and
  \<^verbatim>\<open>fmt.Errorf("unable to find private state for context psi %s", psi)\<close>, here
  \<open>UnknownPSI psi\<close>. The other kinds are those of section 7 of the spec.
\<close>

datatype error =
    UnknownBlock
  | UnknownPSI PrivateStateIdentifier
  | MissingState
  | PartyNotFound string
  | InvalidRegistry

text \<open>
  Modelled from the spec: \<^verbatim>\<open>rpc.PrivateStateIdentifierFromContext\<close> is not among the
  sources. Sections 4.4 and 9: a caller's context either carries an explicit PSI or carries
  none ("every resolution call takes an optional PSI parameter"). The function returns the
  identifier and a flag, as its two uses in the source show; without a PSI the identifier
  is Go's zero string.
\<close>

record rpc_Context =
  psiValue :: "PrivateStateIdentifier option"

definition PrivateStateIdentifierFromContext :: "rpc_Context \<Rightarrow> PrivateStateIdentifier \<times> bool" where
  "PrivateStateIdentifierFromContext ctx =
     (case psiValue ctx of Some psi \<Rightarrow> (psi, True) | None \<Rightarrow> ('''', False))"

subsection \<open>Storage\<close>

text \<open>
  Modelled from the spec: \<^verbatim>\<open>ethdb.Database\<close>, \<^verbatim>\<open>rawdb\<close>, \<^verbatim>\<open>state\<close> and the
  repositories of \<^verbatim>\<open>mps\<close> are not among the sources. Section 3: the Block-Anchored Root
  Index maps a block hash to a root (one index for each strategy), and the trie store is
  content-addressed, keyed by hash. A trie is the key/value table it holds.
\<close>

type_synonym trie = "string \<rightharpoonup> string"

record Database =
  privateStateRoots :: "hash \<rightharpoonup> hash"
  privateStatesTrieRoots :: "hash \<rightharpoonup> hash"
  trieNodes :: "hash \<rightharpoonup> trie"

text \<open>
  Modelled from the spec: \<^verbatim>\<open>state.NewDatabaseWithConfig\<close> (section 4.2, the Shared Trie
  Cache "wraps the raw persistent storage engine"). The type \<^verbatim>\<open>trie.Config\<close> is a
  parameter; the pointer may be nil.
\<close>

record 'cfg state_Database =
  disk :: Database
  trieConfig :: "'cfg option"

definition NewDatabaseWithConfig :: "Database \<Rightarrow> 'cfg option \<Rightarrow> 'cfg state_Database" where
  "NewDatabaseWithConfig db config = \<lparr>disk = db, trieConfig = config\<rparr>"

text \<open>
  Modelled from the spec: \<^verbatim>\<open>state.New(root, cache, snaps)\<close>, section 4.2
  \<^verbatim>\<open>openTrie(root) -> TrieHandle | Err(MissingState)\<close>: "opens a read/write trie view at
  a historical root; fails with MissingState if required nodes were pruned or never
  persisted". It reads the store and writes nothing.
\<close>

record StateDB =
  originalRoot :: hash
  stateTrie :: trie

definition state_New :: "hash \<Rightarrow> 'cfg state_Database \<Rightarrow> unit option \<Rightarrow> error + StateDB" where
  "state_New root cache snaps =
     (case trieNodes (disk cache) root of
        None \<Rightarrow> Inl MissingState
      | Some t \<Rightarrow> Inr \<lparr>originalRoot = root, stateTrie = t\<rparr>)"

text \<open>
  Modelled from the spec: \<^verbatim>\<open>rawdb.GetPrivateStateRoot\<close> and
  \<^verbatim>\<open>rawdb.GetPrivateStatesTrieRoot\<close> read the root index of the Default and of the
  Multiple strategy. In the source each returns one \<^verbatim>\<open>common.Hash\<close> and no error, so a
  missing entry is the zero value \<^verbatim>\<open>common.Hash{}\<close>.
\<close>

definition GetPrivateStateRoot :: "Database \<Rightarrow> hash \<Rightarrow> hash" where
  "GetPrivateStateRoot db blockRoot =
     (case privateStateRoots db blockRoot of Some root \<Rightarrow> root | None \<Rightarrow> 0)"

definition GetPrivateStatesTrieRoot :: "Database \<Rightarrow> hash \<Rightarrow> hash" where
  "GetPrivateStatesTrieRoot db blockHash =
     (case privateStatesTrieRoots db blockHash of Some root \<Rightarrow> root | None \<Rightarrow> 0)"

text \<open>
  Modelled from the spec: the two repositories behind the interface
  \<^verbatim>\<open>mps.PrivateStateRepository\<close> (section 4.4). The Default one is bound to one
  identifier and one opened state; the Multiple one to the table of per-identifier roots
  found at the root of the private states trie.
\<close>

datatype PrivateStateRepository =
    DefaultPrivateStateRepository PrivateStateIdentifier StateDB
  | MultiplePrivateStateRepository hash trie

text \<open>
  Modelled from the spec: \<^verbatim>\<open>mps.NewDefaultPrivateStateRepository\<close>, section 4.4: "looks
  up the single root recorded for blockHash in the Block-Anchored Root Index; opens one
  Repository bound to the reserved default PSI. Fails with Err(UnknownBlock) if no entry
  exists for blockHash." The reserved identifier \<^verbatim>\<open>types.DefaultPrivateStateIdentifier\<close>
  is the parameter \<open>dpsi\<close>.
\<close>

definition NewDefaultPrivateStateRepository ::
    "PrivateStateIdentifier \<Rightarrow> Database \<Rightarrow> 'cfg state_Database \<Rightarrow> hash \<Rightarrow> error + PrivateStateRepository" where
  "NewDefaultPrivateStateRepository dpsi db cache blockHash =
     (case privateStateRoots db blockHash of
        None \<Rightarrow> Inl UnknownBlock
      | Some root \<Rightarrow>
          (case state_New root cache None of
             Inl err \<Rightarrow> Inl err
           | Inr statedb \<Rightarrow> Inr (DefaultPrivateStateRepository dpsi statedb)))"

text \<open>
  Modelled from the spec: \<^verbatim>\<open>mps.NewMultiplePrivateStateRepository\<close>, section 4.4: "looks
  up the full PSI -> root table for blockHash; returns a repository-provider bound to that
  table [...]. Fails with Err(UnknownBlock) under the same condition." The source hands
  this function the root that \<^verbatim>\<open>rawdb.GetPrivateStatesTrieRoot\<close> returned, so the missing
  entry reaches it as the zero root.
\<close>

definition NewMultiplePrivateStateRepository ::
    "Database \<Rightarrow> 'cfg state_Database \<Rightarrow> hash \<Rightarrow> error + PrivateStateRepository" where
  "NewMultiplePrivateStateRepository db cache privateStatesTrieRoot =
     (if privateStatesTrieRoot = 0 then Inl UnknownBlock
      else (case trieNodes (disk cache) privateStatesTrieRoot of
              None \<Rightarrow> Inl MissingState
            | Some table \<Rightarrow> Inr (MultiplePrivateStateRepository privateStatesTrieRoot table)))"

text \<open>
  Modelled from the spec: \<^verbatim>\<open>(*mps.PrivateStateMetadata).NotIncludeAny\<close>, section 4.1
  \<^verbatim>\<open>membershipExcludes(metadata, parties...)\<close>: "true iff none of the supplied parties
  belong to metadata.managedParties".
\<close>

definition NotIncludeAny :: "PrivateStateMetadata \<Rightarrow> string list \<Rightarrow> bool" where
  "NotIncludeAny psm parties = list_all (\<lambda>p. p \<notin> managedParties psm) parties"

section \<open>The Default strategy (core/default\_psm.go)\<close>

record 'cfg DefaultPrivateStateManager =
  d_db :: Database
  d_repoCache :: "'cfg state_Database"

definition newDefaultPrivateStateManager ::
    "Database \<Rightarrow> 'cfg option \<Rightarrow> 'cfg DefaultPrivateStateManager" where
  "newDefaultPrivateStateManager db config =
     \<lparr>d_db = db, d_repoCache = NewDatabaseWithConfig db config\<rparr>"

definition d_StateRepository ::
    "PrivateStateIdentifier \<Rightarrow> 'cfg DefaultPrivateStateManager \<Rightarrow> hash \<Rightarrow> error + PrivateStateRepository" where
  "d_StateRepository dpsi d blockHash =
     NewDefaultPrivateStateRepository dpsi (d_db d) (d_repoCache d) blockHash"

text \<open>
  \<^verbatim>\<open>mps.DefaultPrivateStateMetadata\<close> is a package variable that is not among the
  sources: the parameter \<open>dmeta\<close>.
\<close>

definition d_ResolveForManagedParty ::
    "PrivateStateMetadata \<Rightarrow> 'cfg DefaultPrivateStateManager \<Rightarrow> string \<Rightarrow> error + PrivateStateMetadata" where
  "d_ResolveForManagedParty dmeta d managedParty = Inr dmeta"

text \<open>
  The struct literal \<^verbatim>\<open>&mps.PrivateStateMetadata{ID: psi, Type: mps.Resident}\<close> leaves
  every other field at its zero value: no managed parties.
\<close>

definition d_ResolveForUserContext ::
    "PrivateStateIdentifier \<Rightarrow> 'cfg DefaultPrivateStateManager \<Rightarrow> rpc_Context \<Rightarrow> error + PrivateStateMetadata" where
  "d_ResolveForUserContext dpsi d ctx =
     (let (psi, ok) = PrivateStateIdentifierFromContext ctx;
          psi = (if \<not> ok then dpsi else psi)
      in Inr \<lparr>ID = psi, Type = Resident, managedParties = {}\<rparr>)"

definition d_PSIs ::
    "PrivateStateIdentifier \<Rightarrow> 'cfg DefaultPrivateStateManager \<Rightarrow> PrivateStateIdentifier list" where
  "d_PSIs dpsi d = [dpsi]"

definition d_NotIncludeAny ::
    "'cfg DefaultPrivateStateManager \<Rightarrow> PrivateStateMetadata \<Rightarrow> string list \<Rightarrow> bool" where
  "d_NotIncludeAny d psm parties = False"

text \<open>
  \<^verbatim>\<open>CheckAt\<close> has a pointer receiver and returns only the error; the model returns the
  manager as it is after the call too.
\<close>

definition d_CheckAt ::
    "'cfg DefaultPrivateStateManager \<Rightarrow> hash \<Rightarrow> error option \<times> 'cfg DefaultPrivateStateManager" where
  "d_CheckAt d root =
     (case state_New (GetPrivateStateRoot (d_db d) root) (d_repoCache d) None of
        Inl err \<Rightarrow> (Some err, d)
      | Inr _ \<Rightarrow> (None, d))"

section \<open>The Multiple strategy\<close>

text \<open>
  The two tables are Go maps from a managed party and from an identifier to a metadata
  pointer; the model takes the pointers they hold as non-nil.
\<close>

record 'cfg MultiplePrivateStateManager =
  m_db :: Database
  privateStatesTrieCache :: "'cfg state_Database"
  residentGroupByKey :: "string \<rightharpoonup> PrivateStateMetadata"
  privacyGroupById :: "PrivateStateIdentifier \<rightharpoonup> PrivateStateMetadata"

definition newMultiplePrivateStateManager ::
    "Database \<Rightarrow> 'cfg option \<Rightarrow> (string \<rightharpoonup> PrivateStateMetadata) \<Rightarrow>
     (PrivateStateIdentifier \<rightharpoonup> PrivateStateMetadata) \<Rightarrow> error + 'cfg MultiplePrivateStateManager" where
  "newMultiplePrivateStateManager db config residentGroupByKey' privacyGroupById' =
     Inr \<lparr>m_db = db,
          privateStatesTrieCache = NewDatabaseWithConfig db config,
          residentGroupByKey = residentGroupByKey',
          privacyGroupById = privacyGroupById'\<rparr>"

definition m_StateRepository ::
    "'cfg MultiplePrivateStateManager \<Rightarrow> hash \<Rightarrow> error + PrivateStateRepository" where
  "m_StateRepository m blockHash =
     (let privateStatesTrieRoot = GetPrivateStatesTrieRoot (m_db m) blockHash
      in NewMultiplePrivateStateRepository (m_db m) (privateStatesTrieCache m) privateStatesTrieRoot)"

definition m_ResolveForManagedParty ::
    "'cfg MultiplePrivateStateManager \<Rightarrow> string \<Rightarrow> error + PrivateStateMetadata" where
  "m_ResolveForManagedParty m managedParty =
     (case residentGroupByKey m managedParty of
        None \<Rightarrow> Inl (PartyNotFound managedParty)
      | Some psm \<Rightarrow> Inr psm)"

definition m_ResolveForUserContext ::
    "PrivateStateIdentifier \<Rightarrow> 'cfg MultiplePrivateStateManager \<Rightarrow> rpc_Context \<Rightarrow> error + PrivateStateMetadata" where
  "m_ResolveForUserContext dpsi m ctx =
     (let (psi, ok) = PrivateStateIdentifierFromContext ctx;
          psi = (if \<not> ok then dpsi else psi)
      in (case privacyGroupById m psi of
            None \<Rightarrow> Inl (UnknownPSI psi)
          | Some psm \<Rightarrow> Inr psm))"

text \<open>
  \<^verbatim>\<open>for psi := range m.privacyGroupById\<close>: a Go map keeps no order of its keys, and a
  range loop over it visits every key once, in an order the runtime picks afresh for each
  loop. \<open>map_range m visited\<close> says that \<open>visited\<close> is such a visit of the keys of
  \<open>m\<close>; the order taken is an argument of the model of \<^verbatim>\<open>PSIs\<close>.
\<close>

definition map_range :: "('k \<rightharpoonup> 'v) \<Rightarrow> 'k list \<Rightarrow> bool" where
  "map_range m visited \<longleftrightarrow> distinct visited \<and> set visited = dom m"

fun PSIs_loop :: "PrivateStateIdentifier list \<Rightarrow> PrivateStateIdentifier list \<Rightarrow> PrivateStateIdentifier list" where
  "PSIs_loop psis [] = psis"
| "PSIs_loop psis (psi # rest) = PSIs_loop (psis @ [psi]) rest"

definition m_PSIs ::
    "'cfg MultiplePrivateStateManager \<Rightarrow> PrivateStateIdentifier list \<Rightarrow> PrivateStateIdentifier list" where
  "m_PSIs m visited = PSIs_loop [] visited"

definition m_NotIncludeAny ::
    "'cfg MultiplePrivateStateManager \<Rightarrow> PrivateStateMetadata \<Rightarrow> string list \<Rightarrow> bool" where
  "m_NotIncludeAny m psm parties = NotIncludeAny psm parties"

definition m_CheckAt ::
    "'cfg MultiplePrivateStateManager \<Rightarrow> hash \<Rightarrow> error option \<times> 'cfg MultiplePrivateStateManager" where
  "m_CheckAt m root =
     (case state_New (GetPrivateStatesTrieRoot (m_db m) root) (privateStatesTrieCache m) None of
        Inl err \<Rightarrow> (Some err, m)
      | Inr _ \<Rightarrow> (None, m))"

section \<open>The proposer policy and its TOML form\<close>

text \<open>
  \<^verbatim>\<open>ProposerPolicyId\<close> is a \<^verbatim>\<open>uint64\<close>. The sort function type
  \<^verbatim>\<open>ValidatorSortByFunc\<close> and the type \<^verbatim>\<open>ValidatorSet\<close> are declared outside the
  sources: type parameters. \<^verbatim>\<open>registryMU\<close> is a pointer to a mutex, nil or not.
\<close>

type_synonym ProposerPolicyId = "64 word"

definition RoundRobin :: ProposerPolicyId where
  "RoundRobin = 0"

definition Sticky :: ProposerPolicyId where
  "Sticky = 1"

record ('by, 'vs) ProposerPolicy =
  Id :: ProposerPolicyId
  By :: 'by
  registry :: "'vs list"
  registryMU :: "unit option"

text \<open>
  \<^verbatim>\<open>ValidatorSortByString()\<close> is not among the sources: its result is the parameter
  \<open>sortByString\<close>.
\<close>

definition NewProposerPolicyByIdAndSortFunc :: "ProposerPolicyId \<Rightarrow> 'by \<Rightarrow> ('by, 'vs) ProposerPolicy" where
  "NewProposerPolicyByIdAndSortFunc id' by' =
     \<lparr>Id = id', By = by', registry = [], registryMU = Some ()\<rparr>"

definition NewProposerPolicy :: "'by \<Rightarrow> ProposerPolicyId \<Rightarrow> ('by, 'vs) ProposerPolicy" where
  "NewProposerPolicy sortByString id' = NewProposerPolicyByIdAndSortFunc id' sortByString"

record proposerPolicyToml =
  pp_Id :: ProposerPolicyId

text \<open>
  \<^verbatim>\<open>toml.Marshal\<close> and \<^verbatim>\<open>toml.Unmarshal\<close> belong to the library
  \<^verbatim>\<open>github.com/naoina/toml\<close>, outside this repository: they are the parameters
  \<open>toml_Marshal\<close> and \<open>toml_Unmarshal\<close>, with the library's error type \<open>'e\<close>.
  \<^verbatim>\<open>toml.Unmarshal(input, &pp)\<close> fills the struct it is given, here the zero value of
  \<^verbatim>\<open>var pp proposerPolicyToml\<close>. \<^verbatim>\<open>UnmarshalTOML\<close> writes to its receiver only when
  the library returned no error.
\<close>

definition MarshalTOML ::
    "(proposerPolicyToml \<Rightarrow> 'e + string) \<Rightarrow> ('by, 'vs) ProposerPolicy \<Rightarrow> 'e + string" where
  "MarshalTOML toml_Marshal p = (let pp = \<lparr>pp_Id = Id p\<rparr> in toml_Marshal pp)"

definition UnmarshalTOML ::
    "(string \<Rightarrow> proposerPolicyToml \<Rightarrow> 'e + proposerPolicyToml) \<Rightarrow> 'by \<Rightarrow>
     ('by, 'vs) ProposerPolicy \<Rightarrow> string \<Rightarrow> 'e + ('by, 'vs) ProposerPolicy" where
  "UnmarshalTOML toml_Unmarshal sortByString p input =
     (case toml_Unmarshal input \<lparr>pp_Id = 0\<rparr> of
        Inl err \<Rightarrow> Inl err
      | Inr pp \<Rightarrow> Inr (p\<lparr>Id := pp_Id pp, By := sortByString\<rparr>))"

section \<open>The scenario of section 8 of the spec\<close>

text \<open>
  The registry \<^verbatim>\<open>{A: Resident{alice}, B: Resident{bob}}\<close> over an empty store, used
  where a property is run on a concrete input.
\<close>

abbreviation groupA :: PrivateStateMetadata where
  "groupA \<equiv> \<lparr>ID = ''A'', Type = Resident, managedParties = {''alice''}\<rparr>"

abbreviation groupB :: PrivateStateMetadata where
  "groupB \<equiv> \<lparr>ID = ''B'', Type = Resident, managedParties = {''bob''}\<rparr>"

abbreviation emptyDatabase :: Database where
  "emptyDatabase \<equiv>
     \<lparr>privateStateRoots = Map.empty, privateStatesTrieRoots = Map.empty, trieNodes = Map.empty\<rparr>"

abbreviation scenarioDefault :: "unit DefaultPrivateStateManager" where
  "scenarioDefault \<equiv> newDefaultPrivateStateManager emptyDatabase None"

abbreviation scenarioMultiple :: "unit MultiplePrivateStateManager" where
  "scenarioMultiple \<equiv>
     \<lparr>m_db = emptyDatabase,
      privateStatesTrieCache = NewDatabaseWithConfig emptyDatabase None,
      residentGroupByKey = [''alice'' \<mapsto> groupA, ''bob'' \<mapsto> groupB],
      privacyGroupById = [''A'' \<mapsto> groupA, ''B'' \<mapsto> groupB]\<rparr>"

text \<open>
  A store in which block \<open>1\<close> is committed under both strategies and its tries are
  present, while block \<open>2\<close> is committed under a root whose trie is gone.
\<close>

abbreviation scenarioStore :: Database where
  "scenarioStore \<equiv>
     \<lparr>privateStateRoots = [1 \<mapsto> 10, 2 \<mapsto> 11],
      privateStatesTrieRoots = [1 \<mapsto> 20, 2 \<mapsto> 21],
      trieNodes = [10 \<mapsto> [''k'' \<mapsto> ''v''], 20 \<mapsto> [''A'' \<mapsto> ''rA1'', ''B'' \<mapsto> ''rB1'']]\<rparr>"

section \<open>Helper facts\<close>

lemma PSIs_loop_append: "PSIs_loop psis visited = psis @ visited"
  by (induction visited arbitrary: psis) simp_all

text \<open>
  The storage model on the populated store: a committed block with its trie present gives
  a repository, a committed block whose trie is gone gives \<open>MissingState\<close>, and
  \<^verbatim>\<open>CheckAt\<close> tells the two apart.
\<close>

lemma stateRepository_on_scenarioStore:
  "d_StateRepository ''private'' (newDefaultPrivateStateManager scenarioStore (None :: unit option)) 1 =
     Inr (DefaultPrivateStateRepository ''private'' \<lparr>originalRoot = 10, stateTrie = [''k'' \<mapsto> ''v'']\<rparr>)"
  "d_StateRepository ''private'' (newDefaultPrivateStateManager scenarioStore (None :: unit option)) 2 =
     Inl MissingState"
  "m_StateRepository (scenarioMultiple\<lparr>m_db := scenarioStore,
       privateStatesTrieCache := NewDatabaseWithConfig scenarioStore None\<rparr>) 1 =
     Inr (MultiplePrivateStateRepository 20 [''A'' \<mapsto> ''rA1'', ''B'' \<mapsto> ''rB1''])"
  "m_StateRepository (scenarioMultiple\<lparr>m_db := scenarioStore,
       privateStatesTrieCache := NewDatabaseWithConfig scenarioStore None\<rparr>) 2 =
     Inl MissingState"
  by (simp_all add: d_StateRepository_def NewDefaultPrivateStateRepository_def state_New_def
      newDefaultPrivateStateManager_def NewDatabaseWithConfig_def m_StateRepository_def
      GetPrivateStatesTrieRoot_def NewMultiplePrivateStateRepository_def)

lemma checkAt_on_scenarioStore:
  "fst (d_CheckAt (newDefaultPrivateStateManager scenarioStore (None :: unit option)) 1) = None"
  "fst (d_CheckAt (newDefaultPrivateStateManager scenarioStore (None :: unit option)) 2) = Some MissingState"
  "fst (m_CheckAt (scenarioMultiple\<lparr>m_db := scenarioStore,
       privateStatesTrieCache := NewDatabaseWithConfig scenarioStore None\<rparr>) 1) = None"
  "fst (m_CheckAt (scenarioMultiple\<lparr>m_db := scenarioStore,
       privateStatesTrieCache := NewDatabaseWithConfig scenarioStore None\<rparr>) 2) = Some MissingState"
  by (simp_all add: d_CheckAt_def m_CheckAt_def state_New_def GetPrivateStateRoot_def
      GetPrivateStatesTrieRoot_def newDefaultPrivateStateManager_def NewDatabaseWithConfig_def)

section \<open>Resolution under the Default strategy\<close>

text \<open>
  C1, as the code has it. Under the Default strategy \<^verbatim>\<open>ResolveForManagedParty\<close> returns
  the single synthetic metadata record \<^verbatim>\<open>mps.DefaultPrivateStateMetadata\<close> whatever the
  party key. \<^verbatim>\<open>ResolveForUserContext\<close> returns a synthetic Resident record with no
  managed parties, whose identifier is the PSI of the caller's context when the context
  carries one and the reserved default identifier when it carries none.
\<close>

theorem default_resolution_records:
  "d_ResolveForManagedParty dmeta d managedParty = Inr dmeta \<and>
   d_ResolveForUserContext dpsi d ctx =
     Inr \<lparr>ID = (case psiValue ctx of Some psi \<Rightarrow> psi | None \<Rightarrow> dpsi),
          Type = Resident, managedParties = {}\<rparr>"
  by (cases "psiValue ctx")
    (simp_all add: d_ResolveForManagedParty_def d_ResolveForUserContext_def
      PrivateStateIdentifierFromContext_def)

text \<open>
  C1 as the spec states it fails: with the reserved identifier \<open>''private''\<close>, a context
  that carries the PSI \<open>''PS1''\<close> gets a record named \<open>''PS1''\<close>, which is neither the
  record that \<^verbatim>\<open>ResolveForManagedParty\<close> returns nor the one a context without a PSI
  gets.
\<close>

theorem default_user_context_follows_psi:
  "d_ResolveForUserContext ''private'' scenarioDefault \<lparr>psiValue = Some ''PS1''\<rparr> =
     Inr \<lparr>ID = ''PS1'', Type = Resident, managedParties = {}\<rparr> \<and>
   d_ResolveForUserContext ''private'' scenarioDefault \<lparr>psiValue = Some ''PS1''\<rparr> \<noteq>
     d_ResolveForManagedParty \<lparr>ID = ''private'', Type = Resident, managedParties = {}\<rparr>
       scenarioDefault ''alice'' \<and>
   d_ResolveForUserContext ''private'' scenarioDefault \<lparr>psiValue = Some ''PS1''\<rparr> \<noteq>
     d_ResolveForUserContext ''private'' scenarioDefault \<lparr>psiValue = None\<rparr>"
  by (simp add: d_ResolveForManagedParty_def d_ResolveForUserContext_def
      PrivateStateIdentifierFromContext_def)

text \<open>
  C9. Under the Default strategy \<^verbatim>\<open>ResolveForManagedParty\<close> and
  \<^verbatim>\<open>ResolveForUserContext\<close> never return an error: for every party key and every user
  context both succeed with a metadata record.
\<close>

theorem default_resolution_never_fails:
  "(\<exists>psm. d_ResolveForManagedParty dmeta d managedParty = Inr psm) \<and>
   (\<exists>psm. d_ResolveForUserContext dpsi d ctx = Inr psm)"
  by (simp add: d_ResolveForManagedParty_def d_ResolveForUserContext_def split: prod.split)

section \<open>Enumeration of the identifiers\<close>

text \<open>
  C2, as the code has it. Under the Multiple strategy \<^verbatim>\<open>PSIs\<close> returns the identifiers
  of the registry in the order in which the range loop over the Go map visits them: every
  known PSI exactly once and nothing else, in an order that is not fixed by the registry.
  Under the Default strategy \<^verbatim>\<open>PSIs\<close> returns exactly the single reserved identifier.
\<close>

theorem listIdentifiers_enumerates_registry:
  "(map_range (privacyGroupById m) visited \<longrightarrow>
      m_PSIs m visited = visited \<and>
      distinct (m_PSIs m visited) \<and>
      set (m_PSIs m visited) = dom (privacyGroupById m)) \<and>
   d_PSIs dpsi d = [dpsi]"
  by (simp add: m_PSIs_def d_PSIs_def PSIs_loop_append map_range_def)

theorem listIdentifiers_enumerates_registry_witness:
  "map_range (privacyGroupById scenarioMultiple) [''B'', ''A''] \<and>
   m_PSIs scenarioMultiple [''B'', ''A''] = [''B'', ''A''] \<and>
   set (m_PSIs scenarioMultiple [''B'', ''A'']) = {''A'', ''B''} \<and>
   d_PSIs ''private'' scenarioDefault = [''private'']"
proof -
  have visit: "map_range (privacyGroupById scenarioMultiple) [''B'', ''A'']"
    by (auto simp add: map_range_def)
  have keys: "dom (privacyGroupById scenarioMultiple) = {''A'', ''B''}"
    by auto
  from visit keys
    listIdentifiers_enumerates_registry [of scenarioMultiple "[''B'', ''A'']" "''private''" scenarioDefault]
  show ?thesis by simp
qed

text \<open>
  C2 as the spec states it fails: for the registry in which \<open>A\<close> was registered before
  \<open>B\<close>, the range loop may visit \<open>A\<close> first or \<open>B\<close> first, and the two enumerations
  differ: the result is not determined by the registry, and the second one is not the
  registration order.
\<close>

theorem listIdentifiers_order_not_fixed:
  "map_range (privacyGroupById scenarioMultiple) [''A'', ''B''] \<and>
   map_range (privacyGroupById scenarioMultiple) [''B'', ''A''] \<and>
   m_PSIs scenarioMultiple [''A'', ''B''] = [''A'', ''B''] \<and>
   m_PSIs scenarioMultiple [''B'', ''A''] = [''B'', ''A''] \<and>
   m_PSIs scenarioMultiple [''B'', ''A''] \<noteq> m_PSIs scenarioMultiple [''A'', ''B'']"
  by (auto simp add: map_range_def m_PSIs_def)

section \<open>Construction of the Multiple strategy\<close>

text \<open>
  C3, as the code has it. \<^verbatim>\<open>newMultiplePrivateStateManager\<close> validates nothing and never
  fails: for every pair of tables it returns a manager that holds exactly these tables,
  the database, and the trie cache built over that database. A table keyed by identifier
  cannot hold two entries under one key, and neither descriptors that carry the same
  identifier under two keys nor a Resident descriptor without managed parties are looked
  at.
\<close>

theorem construction_never_fails:
  "\<exists>m. newMultiplePrivateStateManager db config byKey byId = Inr m \<and>
        m_db m = db \<and>
        privateStatesTrieCache m = NewDatabaseWithConfig db config \<and>
        residentGroupByKey m = byKey \<and>
        privacyGroupById m = byId"
  by (simp add: newMultiplePrivateStateManager_def)

text \<open>
  C3 as the spec states it fails: construction succeeds, and returns no
  \<open>InvalidRegistry\<close>, on a registry whose Resident group \<open>A\<close> has no managed party,
  and on a registry whose two descriptors both carry the identifier \<open>A\<close>.
\<close>

theorem construction_accepts_invalid_registry:
  "\<not> isl (newMultiplePrivateStateManager emptyDatabase (None :: unit option) Map.empty
           [''A'' \<mapsto> \<lparr>ID = ''A'', Type = Resident, managedParties = {}\<rparr>]) \<and>
   newMultiplePrivateStateManager emptyDatabase (None :: unit option) Map.empty
           [''A'' \<mapsto> \<lparr>ID = ''A'', Type = Resident, managedParties = {}\<rparr>] \<noteq> Inl InvalidRegistry \<and>
   \<not> isl (newMultiplePrivateStateManager emptyDatabase (None :: unit option)
           [''alice'' \<mapsto> groupA]
           [''A'' \<mapsto> groupA, ''B'' \<mapsto> \<lparr>ID = ''A'', Type = Resident, managedParties = {''bob''}\<rparr>]) \<and>
   newMultiplePrivateStateManager emptyDatabase (None :: unit option)
           [''alice'' \<mapsto> groupA]
           [''A'' \<mapsto> groupA, ''B'' \<mapsto> \<lparr>ID = ''A'', Type = Resident, managedParties = {''bob''}\<rparr>]
     \<noteq> Inl InvalidRegistry"
  by (simp add: newMultiplePrivateStateManager_def)

section \<open>Repositories of blocks without an entry\<close>

text \<open>
  C4. For every block hash that has no entry in the Block-Anchored Root Index,
  \<^verbatim>\<open>StateRepository\<close> returns the error \<open>UnknownBlock\<close>, under the Default strategy
  (its index is \<open>privateStateRoots\<close>) and under the Multiple strategy (its index is
  \<open>privateStatesTrieRoots\<close>).
\<close>

theorem stateRepository_unknown_block:
  "(privateStateRoots (d_db d) blockHash = None \<longrightarrow>
      d_StateRepository dpsi d blockHash = Inl UnknownBlock) \<and>
   (privateStatesTrieRoots (m_db m) blockHash = None \<longrightarrow>
      m_StateRepository m blockHash = Inl UnknownBlock)"
  by (simp add: d_StateRepository_def NewDefaultPrivateStateRepository_def
      m_StateRepository_def GetPrivateStatesTrieRoot_def NewMultiplePrivateStateRepository_def)

theorem stateRepository_unknown_block_witness:
  "privateStateRoots (d_db scenarioDefault) 7 = None \<and>
   d_StateRepository ''private'' scenarioDefault 7 = Inl UnknownBlock \<and>
   privateStatesTrieRoots (m_db scenarioMultiple) 7 = None \<and>
   m_StateRepository scenarioMultiple 7 = Inl UnknownBlock"
  using stateRepository_unknown_block [of scenarioDefault 7 "''private''" scenarioMultiple]
  by (simp add: newDefaultPrivateStateManager_def)

section \<open>Resolution under the Multiple strategy\<close>

text \<open>
  C5, as the code has it. Under the Multiple strategy \<^verbatim>\<open>ResolveForUserContext\<close> looks
  one identifier up in the registry: the PSI of the context when it carries one, the
  reserved default identifier when it carries none. It returns the metadata registered
  under that identifier, and the error \<open>UnknownPSI\<close> when the registry has none, which
  for a context without PSI is the case when the reserved identifier itself is not
  registered. A PSI that the context carries is never replaced by the default.
\<close>

theorem multiple_user_context_resolution:
  "(psiValue ctx = None \<longrightarrow>
      m_ResolveForUserContext dpsi m ctx =
        (case privacyGroupById m dpsi of Some psm \<Rightarrow> Inr psm | None \<Rightarrow> Inl (UnknownPSI dpsi))) \<and>
   (psiValue ctx = Some psi \<longrightarrow>
      m_ResolveForUserContext dpsi m ctx =
        (case privacyGroupById m psi of Some psm \<Rightarrow> Inr psm | None \<Rightarrow> Inl (UnknownPSI psi)))"
  by (simp add: m_ResolveForUserContext_def PrivateStateIdentifierFromContext_def)

theorem multiple_user_context_resolution_witness:
  "m_ResolveForUserContext ''A'' scenarioMultiple \<lparr>psiValue = None\<rparr> = Inr groupA \<and>
   m_ResolveForUserContext ''A'' scenarioMultiple \<lparr>psiValue = Some ''B''\<rparr> = Inr groupB \<and>
   m_ResolveForUserContext ''A'' scenarioMultiple \<lparr>psiValue = Some ''C''\<rparr> = Inl (UnknownPSI ''C'')"
  using multiple_user_context_resolution [of "\<lparr>psiValue = None\<rparr>" "''A''" scenarioMultiple "''B''"]
    multiple_user_context_resolution [of "\<lparr>psiValue = Some ''B''\<rparr>" "''A''" scenarioMultiple "''B''"]
    multiple_user_context_resolution [of "\<lparr>psiValue = Some ''C''\<rparr>" "''A''" scenarioMultiple "''C''"]
  by simp

text \<open>
  C5 as the spec states it fails: with the reserved identifier \<open>''private''\<close> and the
  registry of the scenario, which does not register it, a context without PSI gets the
  error \<open>UnknownPSI ''private''\<close> and no metadata.
\<close>

theorem multiple_user_context_default_unregistered:
  "psiValue \<lparr>psiValue = None\<rparr> = None \<and>
   m_ResolveForUserContext ''private'' scenarioMultiple \<lparr>psiValue = None\<rparr> =
     Inl (UnknownPSI ''private'')"
  by (simp add: m_ResolveForUserContext_def PrivateStateIdentifierFromContext_def)

text \<open>
  C7. Under the Multiple strategy \<^verbatim>\<open>ResolveForManagedParty\<close> returns, for every party
  key configured in the registry (a key of the table \<open>residentGroupByKey\<close>), the group
  metadata registered for that key, and for every key that is not in the registry the
  hard error \<open>PartyNotFound\<close>, never a default record. This holds for every registry,
  so for those with unique identifiers and non-empty Resident membership.
\<close>

theorem multiple_managed_party_resolution:
  "(residentGroupByKey m managedParty = Some psm \<longrightarrow>
      m_ResolveForManagedParty m managedParty = Inr psm) \<and>
   (residentGroupByKey m managedParty = None \<longrightarrow>
      m_ResolveForManagedParty m managedParty = Inl (PartyNotFound managedParty))"
  by (simp add: m_ResolveForManagedParty_def)

theorem multiple_managed_party_resolution_witness:
  "m_ResolveForManagedParty scenarioMultiple ''alice'' = Inr groupA \<and>
   m_ResolveForManagedParty scenarioMultiple ''bob'' = Inr groupB \<and>
   m_ResolveForManagedParty scenarioMultiple ''carol'' = Inl (PartyNotFound ''carol'')"
  using multiple_managed_party_resolution [of scenarioMultiple "''alice''" groupA]
    multiple_managed_party_resolution [of scenarioMultiple "''bob''" groupB]
    multiple_managed_party_resolution [of scenarioMultiple "''carol''" groupA]
  by simp

section \<open>Membership\<close>

text \<open>
  C6, as the code has it. Under the Multiple strategy \<^verbatim>\<open>NotIncludeAny\<close> is true iff none
  of the supplied parties belongs to the managed parties of the metadata, so for a single
  party key \<open>p\<close> it is false iff \<open>p\<close> is a managed party of the metadata. Under the
  Default strategy \<^verbatim>\<open>NotIncludeAny\<close> is false for every metadata record and all parties,
  members or not.
\<close>

theorem notIncludeAny_membership:
  "(m_NotIncludeAny m psm parties \<longleftrightarrow> (\<forall>p \<in> set parties. p \<notin> managedParties psm)) \<and>
   (\<not> m_NotIncludeAny m psm [p] \<longleftrightarrow> p \<in> managedParties psm) \<and>
   \<not> d_NotIncludeAny d psm parties"
  by (simp add: m_NotIncludeAny_def NotIncludeAny_def d_NotIncludeAny_def list_all_iff)

theorem notIncludeAny_membership_witness:
  "m_NotIncludeAny scenarioMultiple groupA [''bob'', ''carol''] \<and>
   \<not> m_NotIncludeAny scenarioMultiple groupA [''bob'', ''alice''] \<and>
   \<not> m_NotIncludeAny scenarioMultiple groupA [''alice''] \<and>
   \<not> d_NotIncludeAny scenarioDefault groupA [''bob'', ''carol'']"
  using notIncludeAny_membership [of scenarioMultiple groupA "[''bob'', ''carol'']" "''alice''" scenarioDefault]
    notIncludeAny_membership [of scenarioMultiple groupA "[''bob'', ''alice'']" "''alice''" scenarioDefault]
  by simp

text \<open>
  C6 as the spec states it fails under the Default strategy: \<open>bob\<close> is not a managed
  party of group \<open>A\<close>, and \<^verbatim>\<open>NotIncludeAny\<close> is false all the same.
\<close>

theorem default_notIncludeAny_ignores_membership:
  "''bob'' \<notin> managedParties groupA \<and> \<not> d_NotIncludeAny scenarioDefault groupA [''bob'']"
  by (simp add: d_NotIncludeAny_def)

section \<open>The consistency check\<close>

text \<open>
  C8. For every root hash \<^verbatim>\<open>CheckAt\<close> only tries to open a trie and leaves everything as
  it was: the manager, with its database (the root indices and the contents of every
  trie), its trie cache and, under the Multiple strategy, its registry, is the same after
  the call as before, whether the call returns no error or \<open>MissingState\<close>; and these are
  its only two results.
\<close>

theorem checkAt_changes_nothing:
  "snd (d_CheckAt d root) = d \<and>
   snd (m_CheckAt m root) = m \<and>
   (fst (d_CheckAt d root) = None \<or> fst (d_CheckAt d root) = Some MissingState) \<and>
   (fst (m_CheckAt m root) = None \<or> fst (m_CheckAt m root) = Some MissingState)"
  by (simp add: d_CheckAt_def m_CheckAt_def state_New_def split: option.split)

section \<open>The TOML round trip of the proposer policy\<close>

text \<open>
  C10. Round trip: for every proposer policy \<open>p\<close>, \<^verbatim>\<open>MarshalTOML\<close> followed by
  \<^verbatim>\<open>UnmarshalTOML\<close> into any policy \<open>q\<close> succeeds and yields \<open>q\<close> with the \<^verbatim>\<open>Id\<close> of
  \<open>p\<close> and \<^verbatim>\<open>By\<close> reset to the default string sort; nothing else of \<open>p\<close> reaches the
  result. The TOML library is a parameter: the statement is for every pair of library
  functions that encodes the one-field struct holding \<open>Id p\<close> and decodes these bytes
  back to it.
\<close>

theorem proposerPolicy_toml_round_trip:
  assumes "toml_Marshal \<lparr>pp_Id = Id p\<rparr> = Inr bytes"
    and "toml_Unmarshal bytes \<lparr>pp_Id = 0\<rparr> = Inr \<lparr>pp_Id = Id p\<rparr>"
  shows "MarshalTOML toml_Marshal p = Inr bytes \<and>
         UnmarshalTOML toml_Unmarshal sortByString q bytes = Inr (q\<lparr>Id := Id p, By := sortByString\<rparr>) \<and>
         (\<exists>q'. UnmarshalTOML toml_Unmarshal sortByString q bytes = Inr q' \<and>
               Id q' = Id p \<and> By q' = sortByString \<and>
               registry q' = registry q \<and> registryMU q' = registryMU q)"
  using assms by (simp add: MarshalTOML_def UnmarshalTOML_def)

theorem proposerPolicy_toml_round_trip_witness:
  "MarshalTOML (\<lambda>pp. if pp_Id pp = 1 then Inr ''id = 1'' else Inl ''unsupported'')
     (NewProposerPolicy ''string'' Sticky :: (string, unit) ProposerPolicy) = Inr ''id = 1'' \<and>
   UnmarshalTOML
     (\<lambda>input pp. if input = ''id = 1'' then Inr (pp\<lparr>pp_Id := 1\<rparr>) else Inl ''unsupported'')
     ''string''
     (NewProposerPolicyByIdAndSortFunc RoundRobin ''other'' :: (string, unit) ProposerPolicy)
     ''id = 1''
     = Inr (NewProposerPolicy ''string'' Sticky)"
  using proposerPolicy_toml_round_trip
    [of "\<lambda>pp. if pp_Id pp = 1 then Inr ''id = 1'' else Inl ''unsupported''"
        "NewProposerPolicy ''string'' Sticky :: (string, unit) ProposerPolicy"
        "''id = 1''"
        "\<lambda>input pp. if input = ''id = 1'' then Inr (pp\<lparr>pp_Id := 1\<rparr>) else Inl ''unsupported''"
        "''string''"
        "NewProposerPolicyByIdAndSortFunc RoundRobin ''other'' :: (string, unit) ProposerPolicy"]
  by (simp add: NewProposerPolicy_def NewProposerPolicyByIdAndSortFunc_def Sticky_def RoundRobin_def)

end
